theory Spec2Isabelle
  imports Main
begin

section \<open>Data model\<close>

text \<open>
  A desired binding, as \<open>get_target_groups_for_node\<close> builds it:
  \<^verbatim>\<open>{'arn': tg['arn'], 'port': tg['port']}\<close>.
\<close>

record target_group =
  arn :: string
  port :: int

text \<open>
  An element of \<^verbatim>\<open>results['failed']\<close>. The key \<^verbatim>\<open>'arn'\<close> is absent from the records
  appended at lines 94 and 115 (a failure of the listing as a whole).
\<close>

record failure =
  f_arn :: "string option"
  operation :: string
  error :: string

text \<open>The dictionary \<^verbatim>\<open>results\<close> of line 72.\<close>

record results =
  registered :: "string list"
  already_registered :: "string list"
  deregistered :: "string list"
  failed :: "failure list"

definition empty_results :: results where
  "empty_results =
     \<lparr>registered = [], already_registered = [], deregistered = [], failed = []\<rparr>"

subsection \<open>The load-balancer client\<close>

text \<open>
  The calls that \<open>register_instance_to_target_groups\<close> makes on \<^verbatim>\<open>elb_client\<close> with
  a target-group ARN. The second argument of the two mutations is the
  \<^verbatim>\<open>Id\<close> of \<^verbatim>\<open>Targets=[{'Id': instance_id}]\<close>.
\<close>

datatype call =
    DescribeTargetHealth string
  | DeregisterTargets string string
  | RegisterTargets string string

text \<open>
  The behaviour of the boto3 client, which is outside the repository, is a
  parameter of the model.
  \<^item> \<open>paginate\<close>: the pages that \<^verbatim>\<open>paginator.paginate()\<close> yields, each one the
    \<^verbatim>\<open>TargetGroupArn\<close>s of its \<^verbatim>\<open>page['TargetGroups']\<close>, and then the text of the
    exception that ends the iteration, if one does. The iteration is lazy: the
    groups of a page are processed before the next page is asked for.
  \<^item> \<open>describe_target_health\<close>: for an ARN, \<open>Inr\<close> the \<^verbatim>\<open>target['Target']['Id']\<close>
    values of \<^verbatim>\<open>response['TargetHealthDescriptions']\<close>, or \<open>Inl\<close> the text of the
    exception raised inside the \<^verbatim>\<open>try\<close>.
  \<^item> \<open>deregister_targets\<close>, \<open>register_targets\<close>: for an ARN and an instance id,
    \<open>None\<close> when the call returns and \<open>Some\<close> the text of the exception when it raises.

  An answer depends on the arguments of the call only. The source makes one call for
  each entry of the list it runs over (lines 120 to 140), so it calls
  \<^verbatim>\<open>register_targets\<close> twice with the same arguments when an ARN is desired twice. A
  client that answers the two calls differently is not covered, and the one property
  that a different second answer would break is stated below for the ARNs that are
  desired once.
\<close>

record elb_client =
  paginate :: "string list list \<times> string option"
  describe_target_health :: "string \<Rightarrow> string + string list"
  deregister_targets :: "string \<Rightarrow> string \<Rightarrow> string option"
  register_targets :: "string \<Rightarrow> string \<Rightarrow> string option"

section \<open>register_instance_to_target_groups\<close>

text \<open>
  The state threaded through the function: the dictionary \<^verbatim>\<open>results\<close>, mutated in
  place by the source, and the client calls made so far, oldest first.
\<close>

type_synonym run = "results \<times> call list"

text \<open>
  Lines 81 to 91, the inner loop of the branch taken when \<^verbatim>\<open>target_groups\<close> is empty.
  The call to \<^verbatim>\<open>deregister_targets\<close> of line 86 is a comment in the source: no call
  is made, and the ARN is appended to \<^verbatim>\<open>results['deregistered']\<close>.
\<close>

fun deregister_all_page :: "elb_client \<Rightarrow> string \<Rightarrow> string list \<Rightarrow> run \<Rightarrow> run" where
  "deregister_all_page elb instance_id [] s = s"
| "deregister_all_page elb instance_id (tg_arn # tgs) (r, cs) =
     (case describe_target_health elb tg_arn of
        Inr ids \<Rightarrow>
          if instance_id \<in> set ids
          then deregister_all_page elb instance_id tgs
                 (r\<lparr>deregistered := deregistered r @ [tg_arn]\<rparr>,
                  cs @ [DescribeTargetHealth tg_arn])
          else deregister_all_page elb instance_id tgs
                 (r, cs @ [DescribeTargetHealth tg_arn])
      | Inl e \<Rightarrow>
          deregister_all_page elb instance_id tgs
            (r\<lparr>failed := failed r @
                 [\<lparr>f_arn = Some tg_arn, operation = ''deregister'', error = e\<rparr>]\<rparr>,
             cs @ [DescribeTargetHealth tg_arn]))"

text \<open>Line 80, the loop over the pages.\<close>

fun deregister_all_pages :: "elb_client \<Rightarrow> string \<Rightarrow> string list list \<Rightarrow> run \<Rightarrow> run" where
  "deregister_all_pages elb instance_id [] s = s"
| "deregister_all_pages elb instance_id (page # pages) s =
     deregister_all_pages elb instance_id pages (deregister_all_page elb instance_id page s)"

text \<open>Lines 102 to 112, the inner loop of the discovery.\<close>

fun discover_page :: "elb_client \<Rightarrow> string \<Rightarrow> string list \<Rightarrow> run \<Rightarrow> run" where
  "discover_page elb instance_id [] s = s"
| "discover_page elb instance_id (tg_arn # tgs) (r, cs) =
     (case describe_target_health elb tg_arn of
        Inr ids \<Rightarrow>
          if instance_id \<in> set ids
          then discover_page elb instance_id tgs
                 (r\<lparr>already_registered := already_registered r @ [tg_arn]\<rparr>,
                  cs @ [DescribeTargetHealth tg_arn])
          else discover_page elb instance_id tgs
                 (r, cs @ [DescribeTargetHealth tg_arn])
      | Inl e \<Rightarrow>
          discover_page elb instance_id tgs
            (r\<lparr>failed := failed r @
                 [\<lparr>f_arn = Some tg_arn, operation = ''describe_health'', error = e\<rparr>]\<rparr>,
             cs @ [DescribeTargetHealth tg_arn]))"

text \<open>Line 101, the loop over the pages.\<close>

fun discover_pages :: "elb_client \<Rightarrow> string \<Rightarrow> string list list \<Rightarrow> run \<Rightarrow> run" where
  "discover_pages elb instance_id [] s = s"
| "discover_pages elb instance_id (page # pages) s =
     discover_pages elb instance_id pages (discover_page elb instance_id page s)"

text \<open>
  Lines 120 to 128. The loop runs over \<^verbatim>\<open>results['already_registered']\<close>, which its
  body does not change; the list is the fourth argument.
\<close>

fun deregister_unwanted ::
  "elb_client \<Rightarrow> string \<Rightarrow> target_group list \<Rightarrow> string list \<Rightarrow> run \<Rightarrow> run" where
  "deregister_unwanted elb instance_id target_groups [] s = s"
| "deregister_unwanted elb instance_id target_groups (tg # tgs) (r, cs) =
     (if tg \<notin> set (map arn target_groups)
      then (case deregister_targets elb tg instance_id of
              None \<Rightarrow>
                deregister_unwanted elb instance_id target_groups tgs
                  (r\<lparr>deregistered := deregistered r @ [tg]\<rparr>,
                   cs @ [DeregisterTargets tg instance_id])
            | Some e \<Rightarrow>
                deregister_unwanted elb instance_id target_groups tgs
                  (r\<lparr>failed := failed r @
                       [\<lparr>f_arn = Some tg, operation = ''deregister'', error = e\<rparr>]\<rparr>,
                   cs @ [DeregisterTargets tg instance_id]))
      else deregister_unwanted elb instance_id target_groups tgs (r, cs))"

text \<open>Lines 132 to 140.\<close>

fun register_new :: "elb_client \<Rightarrow> string \<Rightarrow> target_group list \<Rightarrow> run \<Rightarrow> run" where
  "register_new elb instance_id [] s = s"
| "register_new elb instance_id (tg # tgs) (r, cs) =
     (if arn tg \<notin> set (already_registered r)
      then (case register_targets elb (arn tg) instance_id of
              None \<Rightarrow>
                register_new elb instance_id tgs
                  (r\<lparr>registered := registered r @ [arn tg]\<rparr>,
                   cs @ [RegisterTargets (arn tg) instance_id])
            | Some e \<Rightarrow>
                register_new elb instance_id tgs
                  (r\<lparr>failed := failed r @
                       [\<lparr>f_arn = Some (arn tg), operation = ''register'', error = e\<rparr>]\<rparr>,
                   cs @ [RegisterTargets (arn tg) instance_id]))
      else register_new elb instance_id tgs (r, cs))"

text \<open>
  Lines 68 to 142, from the client that line 71 creates. The result is the returned
  dictionary and the client calls made.
\<close>

definition register_instance_to_target_groups ::
  "elb_client \<Rightarrow> string \<Rightarrow> target_group list \<Rightarrow> run" where
  "register_instance_to_target_groups elb instance_id target_groups =
     (if target_groups = []
      then (case deregister_all_pages elb instance_id (fst (paginate elb)) (empty_results, []) of
              (r, cs) \<Rightarrow>
                (case snd (paginate elb) of
                   None \<Rightarrow> (r, cs)
                 | Some e \<Rightarrow>
                     (r\<lparr>failed := failed r @
                          [\<lparr>f_arn = None, operation = ''deregister'', error = e\<rparr>]\<rparr>, cs)))
      else (case discover_pages elb instance_id (fst (paginate elb)) (empty_results, []) of
              (r, cs) \<Rightarrow>
                (case snd (paginate elb) of
                   Some e \<Rightarrow>
                     (r\<lparr>failed := failed r @
                          [\<lparr>f_arn = None, operation = ''describe_target_groups'', error = e\<rparr>]\<rparr>,
                      cs)
                 | None \<Rightarrow>
                     register_new elb instance_id target_groups
                       (deregister_unwanted elb instance_id target_groups
                          (already_registered r) (r, cs)))))"

section \<open>get_target_groups_for_node\<close>

text \<open>
  The exceptions of the model: the one that \<^verbatim>\<open>fetch_data\<close> raises again at line 32, by
  its text, and the three that the reads of the decoded bodies raise.
\<close>

datatype exn =
    RequestException string
  | KeyError string
  | AttributeError
  | TypeError

text \<open>
  An object among the elements of \<^verbatim>\<open>eks.targetGroups\<close>. Its \<^verbatim>\<open>arn\<close> is a string and its
  \<^verbatim>\<open>port\<close> an integer, as in the specification's data model; \<open>None\<close> is a key that is
  absent or whose value is null (\<^verbatim>\<open>tg.get\<close> returns \<^verbatim>\<open>None\<close> for both) or is a false value
  of another type, which the condition of line 63 treats alike. A true value of another
  type is not covered.
\<close>

record tg_entry =
  entry_arn :: "string option"
  entry_port :: "int option"

text \<open>
  What the iteration of line 63 yields: a JSON object, or a value of any other kind, on
  which \<^verbatim>\<open>tg.get\<close> raises \<^verbatim>\<open>AttributeError\<close>.
\<close>

datatype element = Entry tg_entry | NotAnObject

text \<open>
  The value of \<^verbatim>\<open>.get('targetGroups', [])\<close> at line 60: the key is absent; or the value
  is null, a number or a boolean, on which \<^verbatim>\<open>len\<close> raises \<^verbatim>\<open>TypeError\<close> at line 61; or
  it has elements. A list has its elements; a string or an object has its characters or
  its keys, none of which is an object.
\<close>

datatype target_groups_value = NoTargetGroups | Unsized | Elements "element list"

record eks_config =
  targetGroups :: target_groups_value

text \<open>
  The value of \<^verbatim>\<open>data.get('eks', {})\<close> at line 60: the key is absent; or the value is
  not an object (null included), and \<^verbatim>\<open>.get\<close> raises \<^verbatim>\<open>AttributeError\<close> on it; or it is
  an object.
\<close>

datatype eks_value = NoEks | EksNotAnObject | Eks eks_config

record node_configuration =
  eks :: eks_value

text \<open>
  The decoded body: false for \<^verbatim>\<open>if not data\<close> at line 56 (null, an empty object and the
  other false values); true and not an object, so that \<^verbatim>\<open>data.get\<close> raises
  \<^verbatim>\<open>AttributeError\<close>; or an object.
\<close>

datatype body = FalseBody | BodyNotAnObject | Body node_configuration

text \<open>
  Line 63, the list comprehension. Its condition \<^verbatim>\<open>tg.get('arn') and tg.get('port')\<close>
  is Python truthiness: a string is true when it is not empty, an integer when it is
  not 0, \<^verbatim>\<open>None\<close> never. An element that is not an object raises, and the comprehension
  returns no list.
\<close>

fun select_target_groups :: "element list \<Rightarrow> exn + target_group list" where
  "select_target_groups [] = Inr []"
| "select_target_groups (NotAnObject # tgs) = Inl AttributeError"
| "select_target_groups (Entry tg # tgs) =
     (case select_target_groups tgs of
        Inl x \<Rightarrow> Inl x
      | Inr rest \<Rightarrow>
          (case (entry_arn tg, entry_port tg) of
             (Some a, Some p) \<Rightarrow>
               if a \<noteq> [] \<and> p \<noteq> 0 then Inr (\<lparr>arn = a, port = p\<rparr> # rest) else Inr rest
           | _ \<Rightarrow> Inr rest))"

text \<open>
  Lines 50 to 63. The argument is what \<^verbatim>\<open>fetch_data\<close> does at line 55: \<open>Inl\<close> the
  exception it raises again, which this function lets through, or \<open>Inr\<close> the decoded body.
\<close>

definition get_target_groups_for_node :: "exn + body \<Rightarrow> exn + target_group list" where
  "get_target_groups_for_node fetched =
     (case fetched of
        Inl x \<Rightarrow> Inl x
      | Inr FalseBody \<Rightarrow> Inr []
      | Inr BodyNotAnObject \<Rightarrow> Inl AttributeError
      | Inr (Body data) \<Rightarrow>
          (case eks data of
             NoEks \<Rightarrow> Inr []
           | EksNotAnObject \<Rightarrow> Inl AttributeError
           | Eks k \<Rightarrow>
               (case targetGroups k of
                  NoTargetGroups \<Rightarrow> Inr []
                | Unsized \<Rightarrow> Inl TypeError
                | Elements l \<Rightarrow> select_target_groups l)))"

section \<open>get_cluster_nodes and main\<close>

text \<open>
  An element of \<^verbatim>\<open>data['items']\<close>. The fields that the source reads with
  \<^verbatim>\<open>node[...]\<close> are options, \<open>None\<close> when the key is absent and the read raises
  \<^verbatim>\<open>KeyError\<close>; \<open>state_phase\<close> is \<^verbatim>\<open>node['state']['phase']\<close>. An absent \<^verbatim>\<open>labels\<close> is
  the empty map, as \<^verbatim>\<open>node.get('labels', {})\<close> makes it.
\<close>

record node =
  node_id :: "string option"
  instanceId :: "string option"
  name :: "string option"
  state_phase :: "string option"
  labels :: "string \<Rightarrow> string option"

text \<open>
  The value of \<^verbatim>\<open>data['items']\<close>: the key is absent; or the value is null, a number or
  a boolean, on which \<^verbatim>\<open>len\<close> raises \<^verbatim>\<open>TypeError\<close> at line 43; or it is the list of
  the nodes.
\<close>

datatype items_value = NoItems | UnsizedItems | Items "node list"

record nodes_response =
  items :: items_value

text \<open>
  Lines 35 to 47, on the result of \<^verbatim>\<open>fetch_data\<close> at line 41: \<open>Inl\<close> the exception it
  raises again, or \<open>Inr\<close> the decoded body, an object, or \<open>None\<close> when it is false for
  \<^verbatim>\<open>if data\<close> at line 42.
\<close>

definition get_cluster_nodes :: "exn + nodes_response option \<Rightarrow> exn + node list" where
  "get_cluster_nodes fetched =
     (case fetched of
        Inl x \<Rightarrow> Inl x
      | Inr None \<Rightarrow> Inr []
      | Inr (Some data) \<Rightarrow>
          (case items data of
             NoItems \<Rightarrow> Inr []
           | UnsizedItems \<Rightarrow> Inl TypeError
           | Items l \<Rightarrow> Inr l))"

text \<open>
  What one call of \<open>main\<close> reads from outside: the three environment variables, the
  answers of \<^verbatim>\<open>fetch_data\<close> for the node list and for the node configuration of a
  configuration id (\<open>None\<close> when the node has no such label), and the result of
  \<^verbatim>\<open>boto3.client\<close> at line 71, \<open>Inl\<close> when it raises. The answers are taken not to
  change during the call.
\<close>

record env =
  API_KEY :: "string option"
  CLUSTER_ID :: "string option"
  AWS_REGION :: "string option"
  nodes_fetch :: "exn + nodes_response option"
  config_fetch :: "string option \<Rightarrow> exn + body"
  boto3_client :: "string + elb_client"

text \<open>
  The log lines of \<open>main\<close> itself (the functions it calls log too; those lines are
  left out), and what \<open>main\<close> does in order: its log lines and the client calls.
\<close>

datatype log_line =
    MissingEnvironment
  | FetchingClusterNodes
  | FailedToFetchClusterNodes exn
  | NoNodesFound
  | ProcessingNodes
  | ProcessingNode string string
  | FailedToGetTargetGroups string exn
  | OperationResults string results
  | FailedToRegister string string
  | SkippingNode string

datatype event = Log log_line | Call call

text \<open>
  Lines 167 to 197, the body of the loop for one node: the events, and the exception
  that leaves \<open>main\<close>, if one does.
\<close>

definition process_node :: "env \<Rightarrow> node \<Rightarrow> event list \<times> exn option" where
  "process_node e n =
     (case state_phase n of
        None \<Rightarrow> ([], Some (KeyError ''state''))
      | Some node_state \<Rightarrow>
          if labels n ''provisioner.cast.ai/managed-by'' = Some ''cast.ai'' \<and> node_state = ''ready''
          then (case node_id n of
                  None \<Rightarrow> ([], Some (KeyError ''id''))
                | Some i \<Rightarrow>
                    (case instanceId n of
                       None \<Rightarrow> ([], Some (KeyError ''instanceId''))
                     | Some instance_id \<Rightarrow>
                         (case name n of
                            None \<Rightarrow> ([], Some (KeyError ''name''))
                          | Some nm \<Rightarrow>
                              (case get_target_groups_for_node
                                      (config_fetch e
                                         (labels n ''provisioner.cast.ai/node-configuration-id'')) of
                                 Inl err \<Rightarrow>
                                   ([Log (ProcessingNode nm instance_id),
                                     Log (FailedToGetTargetGroups nm err)], None)
                               | Inr target_groups \<Rightarrow>
                                   (case boto3_client e of
                                      Inl err \<Rightarrow>
                                        ([Log (ProcessingNode nm instance_id),
                                          Log (FailedToRegister nm err)], None)
                                    | Inr elb \<Rightarrow>
                                        (case register_instance_to_target_groups
                                                elb instance_id target_groups of
                                           (result, cs) \<Rightarrow>
                                             (Log (ProcessingNode nm instance_id) # map Call cs @
                                              [Log (OperationResults nm result)], None)))))))
          else (case name n of
                  None \<Rightarrow> ([], Some (KeyError ''name''))
                | Some nm \<Rightarrow> ([Log (SkippingNode nm)], None)))"

text \<open>Line 166, the loop: an exception that leaves the body ends it.\<close>

fun process_nodes :: "env \<Rightarrow> node list \<Rightarrow> event list \<times> exn option" where
  "process_nodes e [] = ([], None)"
| "process_nodes e (n # ns) =
     (case process_node e n of
        (evs, Some x) \<Rightarrow> (evs, Some x)
      | (evs, None) \<Rightarrow> (case process_nodes e ns of (evs', x) \<Rightarrow> (evs @ evs', x)))"

text \<open>\<^verbatim>\<open>all([api_key, cluster_id, aws_region])\<close>: a variable that is unset or empty is false.\<close>

definition is_set :: "string option \<Rightarrow> bool" where
  "is_set v = (case v of None \<Rightarrow> False | Some s \<Rightarrow> s \<noteq> [])"

text \<open>Lines 145 to 197.\<close>

definition main :: "env \<Rightarrow> event list \<times> exn option" where
  "main e =
     (if \<not> (is_set (API_KEY e) \<and> is_set (CLUSTER_ID e) \<and> is_set (AWS_REGION e))
      then ([Log MissingEnvironment], None)
      else (case get_cluster_nodes (nodes_fetch e) of
              Inl err \<Rightarrow> ([Log FetchingClusterNodes, Log (FailedToFetchClusterNodes err)], None)
            | Inr cluster_nodes \<Rightarrow>
                if cluster_nodes = []
                then ([Log FetchingClusterNodes, Log NoNodesFound], None)
                else (case process_nodes e cluster_nodes of
                        (evs, x) \<Rightarrow> (Log FetchingClusterNodes # Log ProcessingNodes # evs, x))))"

section \<open>Notions used to state the properties\<close>

text \<open>The target groups that the listing yields, in the order in which they are processed.\<close>

definition listed :: "elb_client \<Rightarrow> string list" where
  "listed elb = concat (fst (paginate elb))"

text \<open>
  The test of lines 85 and 106 on the answer of the client: the health query returns
  and one of its targets has the instance's id.
\<close>

definition is_member :: "elb_client \<Rightarrow> string \<Rightarrow> string \<Rightarrow> bool" where
  "is_member elb instance_id g =
     (case describe_target_health elb g of Inr ids \<Rightarrow> instance_id \<in> set ids | Inl e \<Rightarrow> False)"

text \<open>
  The membership snapshot of an instance: the listed target groups of which the client
  reports it a member.
\<close>

definition current :: "elb_client \<Rightarrow> string \<Rightarrow> string set" where
  "current elb instance_id = set (filter (is_member elb instance_id) (listed elb))"



text \<open>
  The failure records that a loop appends for a list of ARNs: one for each health query,
  deregistration or registration that raises.
\<close>

fun describe_failures :: "string \<Rightarrow> elb_client \<Rightarrow> string list \<Rightarrow> failure list" where
  "describe_failures tag elb [] = []"
| "describe_failures tag elb (g # gs) =
     (case describe_target_health elb g of
        Inl e \<Rightarrow> \<lparr>f_arn = Some g, operation = tag, error = e\<rparr> # describe_failures tag elb gs
      | Inr ids \<Rightarrow> describe_failures tag elb gs)"

fun deregister_failures :: "elb_client \<Rightarrow> string \<Rightarrow> string list \<Rightarrow> failure list" where
  "deregister_failures elb i [] = []"
| "deregister_failures elb i (g # gs) =
     (case deregister_targets elb g i of
        Some e \<Rightarrow>
          \<lparr>f_arn = Some g, operation = ''deregister'', error = e\<rparr> # deregister_failures elb i gs
      | None \<Rightarrow> deregister_failures elb i gs)"

fun register_failures :: "elb_client \<Rightarrow> string \<Rightarrow> string list \<Rightarrow> failure list" where
  "register_failures elb i [] = []"
| "register_failures elb i (g # gs) =
     (case register_targets elb g i of
        Some e \<Rightarrow>
          \<lparr>f_arn = Some g, operation = ''register'', error = e\<rparr> # register_failures elb i gs
      | None \<Rightarrow> register_failures elb i gs)"

text \<open>
  The ARNs for which the loop of lines 120 to 128 calls \<^verbatim>\<open>deregister_targets\<close>, and those
  for which the loop of lines 132 to 140 calls \<^verbatim>\<open>register_targets\<close>, in the order of the calls.
\<close>

definition unwanted :: "elb_client \<Rightarrow> string \<Rightarrow> target_group list \<Rightarrow> string list" where
  "unwanted elb i tgs =
     filter (\<lambda>g. g \<notin> set (map arn tgs)) (filter (is_member elb i) (listed elb))"

definition missing :: "elb_client \<Rightarrow> string \<Rightarrow> target_group list \<Rightarrow> string list" where
  "missing elb i tgs =
     filter (\<lambda>g. g \<notin> set (filter (is_member elb i) (listed elb))) (map arn tgs)"

text \<open>
  The specification's words for the entries that \<open>get_target_groups_for_node\<close> keeps: the
  \<^verbatim>\<open>arn\<close> and the \<^verbatim>\<open>port\<close> are both present and not empty. A string is empty when it has no
  character; a port is a number, and a number that is present is not empty.
\<close>

definition present_and_nonempty :: "tg_entry \<Rightarrow> bool" where
  "present_and_nonempty tg =
     (case (entry_arn tg, entry_port tg) of (Some a, Some p) \<Rightarrow> a \<noteq> [] | _ \<Rightarrow> False)"

text \<open>
  The specification's eligibility of a node: managed by the orchestrating system and in
  phase ready.
\<close>

definition eligible :: "node \<Rightarrow> bool" where
  "eligible n =
     (labels n ''provisioner.cast.ai/managed-by'' = Some ''cast.ai'' \<and>
      state_phase n = Some ''ready'')"

section \<open>Scenarios\<close>

text \<open>Concrete desired bindings, clients, nodes and an environment, for the examples below.\<close>

definition tg_A :: target_group where
  "tg_A = \<lparr>arn = ''A'', port = 80\<rparr>"

definition tg_B :: target_group where
  "tg_B = \<lparr>arn = ''B'', port = 443\<rparr>"

definition tg_C :: target_group where
  "tg_C = \<lparr>arn = ''C'', port = 80\<rparr>"

text \<open>One page with the groups A and B; the instance \<open>i-1\<close> is a member of A only.\<close>

definition elb_member_of_A :: elb_client where
  "elb_member_of_A =
     \<lparr>paginate = ([[''A'', ''B'']], None),
      describe_target_health = (\<lambda>g. if g = ''A'' then Inr [''i-1''] else Inr []),
      deregister_targets = (\<lambda>g i. None),
      register_targets = (\<lambda>g i. None)\<rparr>"

text \<open>The listing yields one page with the group A, then fails.\<close>

definition elb_listing_fails :: elb_client where
  "elb_listing_fails =
     \<lparr>paginate = ([[''A'']], Some ''Throttling''),
      describe_target_health = (\<lambda>g. if g = ''A'' then Inr [''i-1''] else Inr []),
      deregister_targets = (\<lambda>g i. None),
      register_targets = (\<lambda>g i. None)\<rparr>"

text \<open>The listing yields one page with the group C, whose health query fails, then fails.\<close>

definition elb_listing_fails_after_C :: elb_client where
  "elb_listing_fails_after_C =
     \<lparr>paginate = ([[''C'']], Some ''Throttling''),
      describe_target_health = (\<lambda>g. Inl ''AccessDenied''),
      deregister_targets = (\<lambda>g i. None),
      register_targets = (\<lambda>g i. None)\<rparr>"

text \<open>Two pages with the groups A, B and C; the instance \<open>i-1\<close> is a member of A and B.\<close>

definition elb_member_of_A_and_B :: elb_client where
  "elb_member_of_A_and_B =
     \<lparr>paginate = ([[''A''], [''B'', ''C'']], None),
      describe_target_health =
        (\<lambda>g. if g = ''C'' then Inr [''i-2''] else Inr [''i-2'', ''i-1'']),
      deregister_targets = (\<lambda>g i. None),
      register_targets = (\<lambda>g i. None)\<rparr>"

text \<open>The groups C and D; the health query fails for C, and \<open>i-1\<close> is a member of D.\<close>

definition elb_C_unreachable :: elb_client where
  "elb_C_unreachable =
     \<lparr>paginate = ([[''C'', ''D'']], None),
      describe_target_health =
        (\<lambda>g. if g = ''C'' then Inl ''AccessDenied''
             else if g = ''D'' then Inr [''i-1''] else Inr []),
      deregister_targets = (\<lambda>g i. None),
      register_targets = (\<lambda>g i. None)\<rparr>"

text \<open>No group has \<open>i-1\<close> as a member, and the registration fails for B only.\<close>

definition elb_register_B_fails :: elb_client where
  "elb_register_B_fails =
     \<lparr>paginate = ([[''X'']], None),
      describe_target_health = (\<lambda>g. Inr [''i-9'']),
      deregister_targets = (\<lambda>g i. None),
      register_targets = (\<lambda>g i. if g = ''B'' then Some ''InvalidTarget'' else None)\<rparr>"

definition node_ready :: node where
  "node_ready =
     \<lparr>node_id = Some ''n-1'', instanceId = Some ''i-1'', name = Some ''worker-1'',
      state_phase = Some ''ready'',
      labels = [''provisioner.cast.ai/managed-by'' \<mapsto> ''cast.ai'',
                ''provisioner.cast.ai/node-configuration-id'' \<mapsto> ''cfg-1'']\<rparr>"

definition node_unmanaged :: node where
  "node_unmanaged =
     \<lparr>node_id = Some ''n-2'', instanceId = Some ''i-2'', name = Some ''worker-2'',
      state_phase = Some ''ready'', labels = Map.empty\<rparr>"

definition env_two_nodes :: env where
  "env_two_nodes =
     \<lparr>API_KEY = Some ''key'', CLUSTER_ID = Some ''c-1'', AWS_REGION = Some ''eu-west-1'',
      nodes_fetch = Inr (Some \<lparr>items = Items [node_unmanaged, node_ready]\<rparr>),
      config_fetch =
        (\<lambda>c. Inr (Body \<lparr>eks = Eks \<lparr>targetGroups =
                 Elements [Entry \<lparr>entry_arn = Some ''B'', entry_port = Some 443\<rparr>]\<rparr>\<rparr>)),
      boto3_client = Inr elb_member_of_A\<rparr>"

section \<open>The loops in closed form\<close>

lemma describe_failures_append:
  "describe_failures tag elb (xs @ ys) = describe_failures tag elb xs @ describe_failures tag elb ys"
  by (induction xs) (auto split: sum.splits)

lemma discover_page_eq:
  "discover_page elb i gs (r, cs) =
     (r\<lparr>already_registered := already_registered r @ filter (is_member elb i) gs,
        failed := failed r @ describe_failures ''describe_health'' elb gs\<rparr>,
      cs @ map DescribeTargetHealth gs)"
  by (induction gs arbitrary: r cs) (auto simp: is_member_def split: sum.splits)

lemma discover_pages_eq:
  "discover_pages elb i ps (r, cs) =
     (r\<lparr>already_registered := already_registered r @ filter (is_member elb i) (concat ps),
        failed := failed r @ describe_failures ''describe_health'' elb (concat ps)\<rparr>,
      cs @ map DescribeTargetHealth (concat ps))"
  by (induction ps arbitrary: r cs) (auto simp: discover_page_eq describe_failures_append)

lemma deregister_all_page_eq:
  "deregister_all_page elb i gs (r, cs) =
     (r\<lparr>deregistered := deregistered r @ filter (is_member elb i) gs,
        failed := failed r @ describe_failures ''deregister'' elb gs\<rparr>,
      cs @ map DescribeTargetHealth gs)"
  by (induction gs arbitrary: r cs) (auto simp: is_member_def split: sum.splits)

lemma deregister_all_pages_eq:
  "deregister_all_pages elb i ps (r, cs) =
     (r\<lparr>deregistered := deregistered r @ filter (is_member elb i) (concat ps),
        failed := failed r @ describe_failures ''deregister'' elb (concat ps)\<rparr>,
      cs @ map DescribeTargetHealth (concat ps))"
  by (induction ps arbitrary: r cs) (auto simp: deregister_all_page_eq describe_failures_append)

lemma deregister_unwanted_eq:
  "deregister_unwanted elb i tgs gs (r, cs) =
     (r\<lparr>deregistered := deregistered r @
          filter (\<lambda>g. deregister_targets elb g i = None) (filter (\<lambda>g. g \<notin> set (map arn tgs)) gs),
        failed := failed r @ deregister_failures elb i (filter (\<lambda>g. g \<notin> set (map arn tgs)) gs)\<rparr>,
      cs @ map (\<lambda>g. DeregisterTargets g i) (filter (\<lambda>g. g \<notin> set (map arn tgs)) gs))"
  by (induction gs arbitrary: r cs) (auto split: option.splits)

lemma register_new_eq:
  "register_new elb i tgs (r, cs) =
     (r\<lparr>registered := registered r @
          filter (\<lambda>g. register_targets elb g i = None)
            (filter (\<lambda>g. g \<notin> set (already_registered r)) (map arn tgs)),
        failed := failed r @
          register_failures elb i (filter (\<lambda>g. g \<notin> set (already_registered r)) (map arn tgs))\<rparr>,
      cs @ map (\<lambda>g. RegisterTargets g i)
             (filter (\<lambda>g. g \<notin> set (already_registered r)) (map arn tgs)))"
  by (induction tgs arbitrary: r cs) (auto split: option.splits)

lemma reconcile_empty:
  "register_instance_to_target_groups elb i [] =
     (\<lparr>registered = [], already_registered = [],
       deregistered = filter (is_member elb i) (listed elb),
       failed = describe_failures ''deregister'' elb (listed elb) @
         (case snd (paginate elb) of
            None \<Rightarrow> []
          | Some e \<Rightarrow> [\<lparr>f_arn = None, operation = ''deregister'', error = e\<rparr>])\<rparr>,
      map DescribeTargetHealth (listed elb))"
  by (simp add: register_instance_to_target_groups_def deregister_all_pages_eq empty_results_def
      listed_def split: option.splits)

lemma reconcile_listing_fails:
  "tgs \<noteq> [] \<Longrightarrow> snd (paginate elb) = Some e \<Longrightarrow>
   register_instance_to_target_groups elb i tgs =
     (\<lparr>registered = [], already_registered = filter (is_member elb i) (listed elb),
       deregistered = [],
       failed = describe_failures ''describe_health'' elb (listed elb) @
         [\<lparr>f_arn = None, operation = ''describe_target_groups'', error = e\<rparr>]\<rparr>,
      map DescribeTargetHealth (listed elb))"
  by (simp add: register_instance_to_target_groups_def discover_pages_eq empty_results_def
      listed_def)

lemma reconcile_diff:
  "tgs \<noteq> [] \<Longrightarrow> snd (paginate elb) = None \<Longrightarrow>
   register_instance_to_target_groups elb i tgs =
     (\<lparr>registered = filter (\<lambda>g. register_targets elb g i = None) (missing elb i tgs),
       already_registered = filter (is_member elb i) (listed elb),
       deregistered = filter (\<lambda>g. deregister_targets elb g i = None) (unwanted elb i tgs),
       failed = describe_failures ''describe_health'' elb (listed elb) @
         deregister_failures elb i (unwanted elb i tgs) @
         register_failures elb i (missing elb i tgs)\<rparr>,
      map DescribeTargetHealth (listed elb) @
      map (\<lambda>g. DeregisterTargets g i) (unwanted elb i tgs) @
      map (\<lambda>g. RegisterTargets g i) (missing elb i tgs))"
  by (simp add: register_instance_to_target_groups_def discover_pages_eq empty_results_def
      listed_def deregister_unwanted_eq register_new_eq unwanted_def missing_def)




section \<open>Facts about the failure records\<close>

lemma operation_describe_failures:
  "f \<in> set (describe_failures tag elb gs) \<Longrightarrow> operation f = tag \<and> f_arn f \<noteq> None"
  by (induction gs) (auto split: sum.splits)

lemma describe_failures_mem:
  "a \<in> set gs \<Longrightarrow> describe_target_health elb a = Inl e \<Longrightarrow>
   \<lparr>f_arn = Some a, operation = tag, error = e\<rparr> \<in> set (describe_failures tag elb gs)"
  by (induction gs) (auto split: sum.splits)

lemma describe_failures_Nil:
  "\<forall>g \<in> set gs. \<forall>x. describe_target_health elb g \<noteq> Inl x \<Longrightarrow>
   describe_failures tag elb gs = []"
  by (induction gs) (auto split: sum.splits)

lemma operation_deregister_failures:
  "f \<in> set (deregister_failures elb i gs) \<Longrightarrow>
   operation f = ''deregister'' \<and> (\<exists>a \<in> set gs. f_arn f = Some a)"
  by (induction gs) (auto split: option.splits)

lemma operation_register_failures:
  "f \<in> set (register_failures elb i gs) \<Longrightarrow>
   operation f = ''register'' \<and> (\<exists>a \<in> set gs. f_arn f = Some a)"
  by (induction gs) (auto split: option.splits)

section \<open>The result buckets\<close>










section \<open>The empty desired set\<close>

lemma empty_desired_calls:
  "snd (register_instance_to_target_groups elb i []) = map DescribeTargetHealth (listed elb)"
  by (simp add: reconcile_empty)

text \<open>
  C2: with an empty desired set, the program issues the client's deregister call for
  every ARN of the membership snapshot, and appends the ARN to \<open>deregistered\<close> when the
  call succeeds. The code appends the ARN but makes no call, line 86 being a comment:
  with the groups A and B listed and the instance \<open>i-1\<close> a member of A, the only calls
  are the two health queries, and the result reports A as deregistered.
\<close>

theorem empty_desired_reports_without_deregistering:
  "''A'' \<in> current elb_member_of_A ''i-1'' \<and>
   register_instance_to_target_groups elb_member_of_A ''i-1'' [] =
     (\<lparr>registered = [], already_registered = [], deregistered = [''A''], failed = []\<rparr>,
      [DescribeTargetHealth ''A'', DescribeTargetHealth ''B''])"
  by (simp add: elb_member_of_A_def register_instance_to_target_groups_def empty_results_def
      current_def listed_def is_member_def)

text \<open>
  C6: with an empty desired set and a snapshot that reports the instance a member of
  exactly A and B, the result has \<open>deregistered\<close> equal to \<open>{A, B}\<close> as a set, and
  \<open>registered\<close> and \<open>already_registered\<close> empty.
\<close>

theorem empty_desired_result:
  assumes "current elb i = {A, B}"
  shows "set (deregistered (fst (register_instance_to_target_groups elb i []))) = {A, B} \<and>
         registered (fst (register_instance_to_target_groups elb i [])) = [] \<and>
         already_registered (fst (register_instance_to_target_groups elb i [])) = []"
  using assms by (simp add: reconcile_empty current_def)

theorem empty_desired_result_witness:
  "current elb_member_of_A_and_B ''i-1'' = {''A'', ''B''} \<and>
   snd (paginate elb_member_of_A_and_B) = None \<and>
   set (deregistered (fst (register_instance_to_target_groups elb_member_of_A_and_B ''i-1'' [])))
     = {''A'', ''B''} \<and>
   registered (fst (register_instance_to_target_groups elb_member_of_A_and_B ''i-1'' [])) = [] \<and>
   already_registered (fst (register_instance_to_target_groups elb_member_of_A_and_B ''i-1'' []))
     = []"
proof -
  have c: "current elb_member_of_A_and_B ''i-1'' = {''A'', ''B''}"
    by (simp add: elb_member_of_A_and_B_def current_def listed_def is_member_def)
  have p: "snd (paginate elb_member_of_A_and_B) = None"
    by (simp add: elb_member_of_A_and_B_def)
  show ?thesis
    using empty_desired_result [OF c] c p by simp
qed

section \<open>The diff of a non-empty desired set\<close>

text \<open>
  C3: with a non-empty desired set and a listing that does not fail, the deregister
  call is issued for every ARN of the snapshot that is not desired; every ARN of the
  snapshot that is desired is in \<open>already_registered\<close> (and no deregister call is issued
  for it); and the register call is issued for no ARN of the snapshot.
\<close>

theorem classification_of_current:
  assumes ne: "tgs \<noteq> []" and ok: "snd (paginate elb) = None"
  shows "(\<forall>a \<in> current elb i. a \<notin> set (map arn tgs) \<longrightarrow>
            DeregisterTargets a i \<in> set (snd (register_instance_to_target_groups elb i tgs))) \<and>
         (\<forall>a \<in> current elb i. a \<in> set (map arn tgs) \<longrightarrow>
            a \<in> set (already_registered (fst (register_instance_to_target_groups elb i tgs))) \<and>
            (\<forall>j. DeregisterTargets a j
                    \<notin> set (snd (register_instance_to_target_groups elb i tgs)))) \<and>
         (\<forall>a \<in> current elb i. \<forall>j.
            RegisterTargets a j \<notin> set (snd (register_instance_to_target_groups elb i tgs)))"
  by (auto simp: reconcile_diff [OF ne ok] current_def unwanted_def missing_def)

theorem classification_of_current_witness:
  "[tg_B] \<noteq> [] \<and> snd (paginate elb_member_of_A) = None \<and>
   current elb_member_of_A ''i-1'' = {''A''} \<and>
   DeregisterTargets ''A'' ''i-1''
     \<in> set (snd (register_instance_to_target_groups elb_member_of_A ''i-1'' [tg_B])) \<and>
   (\<forall>j. RegisterTargets ''A'' j
           \<notin> set (snd (register_instance_to_target_groups elb_member_of_A ''i-1'' [tg_B])))"
proof -
  have h: "[tg_B] \<noteq> []" "snd (paginate elb_member_of_A) = None"
    by (simp_all add: elb_member_of_A_def)
  have c: "current elb_member_of_A ''i-1'' = {''A''}"
    by (simp add: elb_member_of_A_def current_def listed_def is_member_def)
  show ?thesis
    using classification_of_current [OF h, of "''i-1''"] h c by (simp add: tg_B_def)
qed

text \<open>
  C10: with a non-empty desired set, every ARN of \<open>deregistered\<close> is in
  \<open>already_registered\<close>, so that the two buckets have an ARN in common as soon as
  \<open>deregistered\<close> is not empty.
\<close>

theorem deregistered_subset_already_registered:
  assumes "tgs \<noteq> []"
  shows "set (deregistered (fst (register_instance_to_target_groups elb i tgs)))
           \<subseteq> set (already_registered (fst (register_instance_to_target_groups elb i tgs))) \<and>
         (deregistered (fst (register_instance_to_target_groups elb i tgs)) \<noteq> [] \<longrightarrow>
            set (deregistered (fst (register_instance_to_target_groups elb i tgs))) \<inter>
            set (already_registered (fst (register_instance_to_target_groups elb i tgs)))
              \<noteq> {})"
proof (cases "snd (paginate elb)")
  case None
  have sub: "set (filter (\<lambda>g. deregister_targets elb g i = None) (unwanted elb i tgs))
               \<subseteq> set (filter (is_member elb i) (listed elb))"
    by (auto simp: unwanted_def)
  have ne: "xs \<noteq> [] \<Longrightarrow> set xs \<subseteq> B \<Longrightarrow> set xs \<inter> B \<noteq> {}" for xs :: "string list" and B
    by (cases xs) auto
  show ?thesis
    using sub ne [OF _ sub] by (simp add: reconcile_diff [OF assms None])
next
  case (Some e)
  show ?thesis by (simp add: reconcile_listing_fails [OF assms Some])
qed

theorem deregistered_subset_already_registered_witness:
  "[tg_B] \<noteq> [] \<and>
   deregistered (fst (register_instance_to_target_groups elb_member_of_A ''i-1'' [tg_B]))
     = [''A''] \<and>
   set (deregistered (fst (register_instance_to_target_groups elb_member_of_A ''i-1'' [tg_B])))
     \<subseteq> set (already_registered
               (fst (register_instance_to_target_groups elb_member_of_A ''i-1'' [tg_B]))) \<and>
   set (deregistered (fst (register_instance_to_target_groups elb_member_of_A ''i-1'' [tg_B])))
     \<inter> set (already_registered
               (fst (register_instance_to_target_groups elb_member_of_A ''i-1'' [tg_B])))
     \<noteq> {}"
proof -
  have d: "deregistered (fst (register_instance_to_target_groups elb_member_of_A ''i-1'' [tg_B]))
             = [''A'']"
    by (simp add: tg_B_def elb_member_of_A_def register_instance_to_target_groups_def
        empty_results_def)
  show ?thesis
    using deregistered_subset_already_registered [of "[tg_B]" elb_member_of_A "''i-1''"] d
    by simp
qed

section \<open>Failures of the provider\<close>

text \<open>
  C4, as the specification states it: when the listing of the target groups fails, the
  result has \<open>registered\<close>, \<open>already_registered\<close> and \<open>deregistered\<close> empty, whatever was
  processed before the failure, and \<open>failed\<close> a single record. The code does otherwise:
  the listing yields a page with the group A, of which the instance is a member, and
  then fails; line 107 has already appended A, and the result returned at line 116 keeps
  it. In the same way, the failure record that line 111 appended for a group whose
  health query failed is kept, and \<open>failed\<close> has two records.
\<close>

theorem listing_failure_keeps_already_registered:
  "[tg_B] \<noteq> [] \<and> snd (paginate elb_listing_fails) = Some ''Throttling'' \<and>
   already_registered (fst (register_instance_to_target_groups elb_listing_fails ''i-1'' [tg_B]))
     = [''A''] \<and>
   snd (paginate elb_listing_fails_after_C) = Some ''Throttling'' \<and>
   failed (fst (register_instance_to_target_groups elb_listing_fails_after_C ''i-1'' [tg_B])) =
     [\<lparr>f_arn = Some ''C'', operation = ''describe_health'', error = ''AccessDenied''\<rparr>,
      \<lparr>f_arn = None, operation = ''describe_target_groups'', error = ''Throttling''\<rparr>]"
  by (simp add: elb_listing_fails_def elb_listing_fails_after_C_def
      register_instance_to_target_groups_def empty_results_def)

lemma f_arn_of_describe_failures:
  "map f_arn (describe_failures tag elb gs) =
     map Some (filter (\<lambda>g. isl (describe_target_health elb g)) gs)"
  by (induction gs) (auto split: sum.splits)

lemma describe_failures_empty_iff:
  "describe_failures tag elb gs = [] \<longleftrightarrow>
     (\<forall>g \<in> set gs. \<not> isl (describe_target_health elb g))"
  by (induction gs) (auto split: sum.splits)

text \<open>
  C4, amended. With a non-empty desired set, when the listing fails the call stops before
  any register or deregister call: \<open>registered\<close> and \<open>deregistered\<close> are empty;
  \<open>already_registered\<close> holds the members found among the groups listed before the
  failure; \<open>failed\<close> holds one record with the tag \<open>describe_health\<close> for each of those
  groups whose health query failed, in the order of the listing, and then, last, the one
  record without an ARN and with the tag \<open>describe_target_groups\<close>. The result is the
  one the specification states, the three lists empty and that single record, exactly
  when every group listed before the failure answered its health query without the
  instance among its targets; so it is when no group was listed.
\<close>

theorem listing_failure_result:
  assumes ne: "tgs \<noteq> []" and err: "snd (paginate elb) = Some e"
  shows "registered (fst (register_instance_to_target_groups elb i tgs)) = [] \<and>
         deregistered (fst (register_instance_to_target_groups elb i tgs)) = [] \<and>
         already_registered (fst (register_instance_to_target_groups elb i tgs)) =
           filter (is_member elb i) (listed elb) \<and>
         failed (fst (register_instance_to_target_groups elb i tgs)) =
           describe_failures ''describe_health'' elb (listed elb) @
           [\<lparr>f_arn = None, operation = ''describe_target_groups'', error = e\<rparr>] \<and>
         map f_arn (failed (fst (register_instance_to_target_groups elb i tgs))) =
           map Some (filter (\<lambda>g. isl (describe_target_health elb g)) (listed elb)) @ [None] \<and>
         filter (\<lambda>f. operation f \<noteq> ''describe_health'')
             (failed (fst (register_instance_to_target_groups elb i tgs))) =
           [\<lparr>f_arn = None, operation = ''describe_target_groups'', error = e\<rparr>] \<and>
         last (failed (fst (register_instance_to_target_groups elb i tgs))) =
           \<lparr>f_arn = None, operation = ''describe_target_groups'', error = e\<rparr> \<and>
         snd (register_instance_to_target_groups elb i tgs) =
           map DescribeTargetHealth (listed elb) \<and>
         (fst (register_instance_to_target_groups elb i tgs) =
            \<lparr>registered = [], already_registered = [], deregistered = [],
             failed = [\<lparr>f_arn = None, operation = ''describe_target_groups'', error = e\<rparr>]\<rparr>
          \<longleftrightarrow> (\<forall>g \<in> set (listed elb).
                 \<exists>ids. describe_target_health elb g = Inr ids \<and> i \<notin> set ids)) \<and>
         (listed elb = [] \<longrightarrow>
            fst (register_instance_to_target_groups elb i tgs) =
              \<lparr>registered = [], already_registered = [], deregistered = [],
               failed = [\<lparr>f_arn = None, operation = ''describe_target_groups'', error = e\<rparr>]\<rparr>)"
proof -
  have tags: "filter (\<lambda>f. operation f \<noteq> ''describe_health'')
          (describe_failures ''describe_health'' elb (listed elb)) = []"
    by (auto simp: filter_empty_conv dest: operation_describe_failures)
  have quiet: "(filter (is_member elb i) (listed elb) = [] \<and>
                describe_failures ''describe_health'' elb (listed elb) = []) \<longleftrightarrow>
               (\<forall>g \<in> set (listed elb).
                  \<exists>ids. describe_target_health elb g = Inr ids \<and> i \<notin> set ids)"
  proof -
    have pt: "(\<not> is_member elb i g \<and> \<not> isl (describe_target_health elb g)) \<longleftrightarrow>
              (\<exists>ids. describe_target_health elb g = Inr ids \<and> i \<notin> set ids)" for g
      by (cases "describe_target_health elb g") (simp_all add: is_member_def)
    have "(filter (is_member elb i) (listed elb) = [] \<and>
           describe_failures ''describe_health'' elb (listed elb) = []) \<longleftrightarrow>
          (\<forall>g \<in> set (listed elb).
             \<not> is_member elb i g \<and> \<not> isl (describe_target_health elb g))"
      by (auto simp: filter_empty_conv describe_failures_empty_iff)
    then show ?thesis by (simp only: pt)
  qed
  have same: "fst (register_instance_to_target_groups elb i tgs) =
            \<lparr>registered = [], already_registered = [], deregistered = [],
             failed = [\<lparr>f_arn = None, operation = ''describe_target_groups'', error = e\<rparr>]\<rparr>
          \<longleftrightarrow> (filter (is_member elb i) (listed elb) = [] \<and>
                describe_failures ''describe_health'' elb (listed elb) = [])"
    by (auto simp: reconcile_listing_fails [OF ne err])
  show ?thesis
    using tags same quiet
    by (simp add: reconcile_listing_fails [OF ne err] f_arn_of_describe_failures)
qed

theorem listing_failure_result_witness:
  "[tg_B] \<noteq> [] \<and> snd (paginate elb_listing_fails) = Some ''Throttling'' \<and>
   registered (fst (register_instance_to_target_groups elb_listing_fails ''i-1'' [tg_B])) = [] \<and>
   deregistered (fst (register_instance_to_target_groups elb_listing_fails ''i-1'' [tg_B])) = [] \<and>
   failed (fst (register_instance_to_target_groups elb_listing_fails ''i-1'' [tg_B])) =
     [\<lparr>f_arn = None, operation = ''describe_target_groups'', error = ''Throttling''\<rparr>] \<and>
   fst (register_instance_to_target_groups elb_listing_fails ''i-1'' [tg_B]) \<noteq>
     \<lparr>registered = [], already_registered = [], deregistered = [],
      failed = [\<lparr>f_arn = None, operation = ''describe_target_groups'',
                 error = ''Throttling''\<rparr>]\<rparr>"
proof -
  have h: "[tg_B] \<noteq> []" "snd (paginate elb_listing_fails) = Some ''Throttling''"
    by (simp_all add: elb_listing_fails_def)
  have l: "listed elb_listing_fails = [''A'']"
    "describe_target_health elb_listing_fails ''A'' = Inr [''i-1'']"
    by (simp_all add: elb_listing_fails_def listed_def)
  show ?thesis
    using listing_failure_result [OF h, of "''i-1''"] h l by simp
qed

text \<open>
  C5, as the specification states it: when the health query fails for the group C, then
  for every desired set C is in neither \<open>registered\<close> nor \<open>deregistered\<close>, and no
  register or deregister call is issued for it. The code does otherwise when C is
  desired: C is not in \<open>already_registered\<close>, so the loop of lines 132 to 140 issues the
  register call for it.
\<close>

theorem unreachable_desired_group_is_registered:
  "[tg_C] \<noteq> [] \<and> describe_target_health elb_C_unreachable ''C'' = Inl ''AccessDenied'' \<and>
   register_instance_to_target_groups elb_C_unreachable ''i-1'' [tg_C] =
     (\<lparr>registered = [''C''], already_registered = [''D''], deregistered = [''D''],
       failed = [\<lparr>f_arn = Some ''C'', operation = ''describe_health'',
                  error = ''AccessDenied''\<rparr>]\<rparr>,
      [DescribeTargetHealth ''C'', DescribeTargetHealth ''D'',
       DeregisterTargets ''D'' ''i-1'', RegisterTargets ''C'' ''i-1''])"
  by (simp add: elb_C_unreachable_def tg_C_def register_instance_to_target_groups_def
      empty_results_def)

text \<open>
  C5, amended. The listed groups are C and D, the health query fails for C and reports
  the instance a member of D, and the desired set is not empty. Then D is in
  \<open>already_registered\<close> and is not registered again; when D is desired no deregister
  call is issued for it, and when D is not desired the deregister call is issued and D is
  in \<open>deregistered\<close> exactly when the call succeeds. C has a failure record with the tag
  \<open>describe_health\<close>, is in neither \<open>already_registered\<close> nor \<open>deregistered\<close>, and no
  deregister call is issued for it. When C is not desired, C is not in \<open>registered\<close>, no
  register call is issued for it and its failure records all have the tag
  \<open>describe_health\<close>; when C is desired, the register call is issued for C.
\<close>

theorem unreachable_group_isolation:
  assumes groups: "set (listed elb) = {C, D}"
    and ok: "snd (paginate elb) = None"
    and unreachable: "describe_target_health elb C = Inl e"
    and member: "describe_target_health elb D = Inr ids" "i \<in> set ids"
    and ne: "tgs \<noteq> []"
  shows "D \<in> set (already_registered (fst (register_instance_to_target_groups elb i tgs))) \<and>
         D \<notin> set (registered (fst (register_instance_to_target_groups elb i tgs))) \<and>
         (\<forall>j. RegisterTargets D j \<notin> set (snd (register_instance_to_target_groups elb i tgs))) \<and>
         (D \<in> set (map arn tgs) \<longrightarrow>
            D \<notin> set (deregistered (fst (register_instance_to_target_groups elb i tgs))) \<and>
            (\<forall>j. DeregisterTargets D j
                    \<notin> set (snd (register_instance_to_target_groups elb i tgs)))) \<and>
         (D \<notin> set (map arn tgs) \<longrightarrow>
            DeregisterTargets D i \<in> set (snd (register_instance_to_target_groups elb i tgs)) \<and>
            (D \<in> set (deregistered (fst (register_instance_to_target_groups elb i tgs)))
               \<longleftrightarrow> deregister_targets elb D i = None)) \<and>
         \<lparr>f_arn = Some C, operation = ''describe_health'', error = e\<rparr>
            \<in> set (failed (fst (register_instance_to_target_groups elb i tgs))) \<and>
         C \<notin> set (already_registered (fst (register_instance_to_target_groups elb i tgs))) \<and>
         C \<notin> set (deregistered (fst (register_instance_to_target_groups elb i tgs))) \<and>
         (\<forall>j. DeregisterTargets C j
                 \<notin> set (snd (register_instance_to_target_groups elb i tgs))) \<and>
         (C \<notin> set (map arn tgs) \<longrightarrow>
            C \<notin> set (registered (fst (register_instance_to_target_groups elb i tgs))) \<and>
            (\<forall>j. RegisterTargets C j
                    \<notin> set (snd (register_instance_to_target_groups elb i tgs))) \<and>
            (\<forall>f \<in> set (failed (fst (register_instance_to_target_groups elb i tgs))).
               f_arn f = Some C \<longrightarrow> operation f = ''describe_health'')) \<and>
         (C \<in> set (map arn tgs) \<longrightarrow>
            RegisterTargets C i \<in> set (snd (register_instance_to_target_groups elb i tgs)))"
proof -
  have mD: "is_member elb i D" and mC: "\<not> is_member elb i C"
    using unreachable member by (simp_all add: is_member_def)
  have lD: "D \<in> set (listed elb)" and lC: "C \<in> set (listed elb)"
    using groups by simp_all
  have fC: "\<lparr>f_arn = Some C, operation = ''describe_health'', error = e\<rparr>
              \<in> set (describe_failures ''describe_health'' elb (listed elb))"
    using lC unreachable by (rule describe_failures_mem)
  have only: "\<forall>f \<in> set (deregister_failures elb i (unwanted elb i tgs)). f_arn f \<noteq> Some C"
    using mC by (auto simp: unwanted_def dest!: operation_deregister_failures)
  have only': "C \<notin> set (map arn tgs) \<Longrightarrow>
      \<forall>f \<in> set (register_failures elb i (missing elb i tgs)). f_arn f \<noteq> Some C"
    by (auto simp: missing_def dest!: operation_register_failures)
  have dD: "D \<notin> set (map arn tgs) \<Longrightarrow> D \<in> set (unwanted elb i tgs)"
    using mD lD by (simp add: unwanted_def)
  have dD': "D \<in> set (map arn tgs) \<Longrightarrow> D \<notin> set (unwanted elb i tgs)"
    by (simp add: unwanted_def)
  have rD: "D \<notin> set (missing elb i tgs)"
    using mD lD by (simp add: missing_def)
  have uC: "C \<notin> set (unwanted elb i tgs)"
    using mC by (simp add: unwanted_def)
  have rC: "C \<in> set (map arn tgs) \<Longrightarrow> C \<in> set (missing elb i tgs)"
    using mC by (simp add: missing_def)
  have rC': "C \<notin> set (map arn tgs) \<Longrightarrow> C \<notin> set (missing elb i tgs)"
    by (simp add: missing_def)
  show ?thesis
    unfolding reconcile_diff [OF ne ok]
    using mD mC lD fC only only' dD dD' rD uC rC rC'
    by (auto dest: operation_describe_failures)
qed

theorem unreachable_group_isolation_witness:
  "set (listed elb_C_unreachable) = {''C'', ''D''} \<and> snd (paginate elb_C_unreachable) = None \<and>
   describe_target_health elb_C_unreachable ''C'' = Inl ''AccessDenied'' \<and>
   describe_target_health elb_C_unreachable ''D'' = Inr [''i-1''] \<and> ''i-1'' \<in> set [''i-1''] \<and>
   [tg_B] \<noteq> [] \<and>
   ''D'' \<in> set (already_registered
                (fst (register_instance_to_target_groups elb_C_unreachable ''i-1'' [tg_B]))) \<and>
   ''D'' \<in> set (deregistered
                (fst (register_instance_to_target_groups elb_C_unreachable ''i-1'' [tg_B]))) \<and>
   ''C'' \<notin> set (registered
                (fst (register_instance_to_target_groups elb_C_unreachable ''i-1'' [tg_B]))) \<and>
   ''C'' \<notin> set (deregistered
                (fst (register_instance_to_target_groups elb_C_unreachable ''i-1'' [tg_B])))"
proof -
  have h: "set (listed elb_C_unreachable) = {''C'', ''D''}"
    "snd (paginate elb_C_unreachable) = None"
    "describe_target_health elb_C_unreachable ''C'' = Inl ''AccessDenied''"
    "describe_target_health elb_C_unreachable ''D'' = Inr [''i-1'']"
    "''i-1'' \<in> set [''i-1'']" "[tg_B] \<noteq> []"
    by (simp_all add: elb_C_unreachable_def listed_def)
  have d: "deregister_targets elb_C_unreachable ''D'' ''i-1'' = None"
    by (simp add: elb_C_unreachable_def)
  show ?thesis
    using unreachable_group_isolation [OF h] h d by (simp add: tg_B_def)
qed

lemma two_distinct:
  assumes "distinct xs" "set xs = {A, B}" "A \<noteq> B"
  shows "xs = [A, B] \<or> xs = [B, A]"
proof -
  have "length xs = 2"
    using assms distinct_card [of xs] by simp
  then obtain x y where xs: "xs = [x, y]"
    by (cases xs; cases "tl xs") auto
  with assms show ?thesis by (auto simp: doubleton_eq_iff)
qed

text \<open>
  C7: the desired set is \<open>{A, B}\<close>, the snapshot is empty, and the register call
  succeeds for A and fails for B. Then \<open>registered\<close> is \<open>[A]\<close>, and \<open>failed\<close> has exactly
  one record with the tag \<open>register\<close>, the one of B; when no other call of the provider
  fails, that record is the whole of \<open>failed\<close>. The register call is issued for both
  ARNs, in whichever order they are desired.
\<close>

theorem partial_failure_isolation:
  assumes desired: "set (map arn tgs) = {A, B}" "distinct (map arn tgs)"
    and ok: "snd (paginate elb) = None"
    and none: "current elb i = {}"
    and regA: "register_targets elb A i = None"
    and regB: "register_targets elb B i = Some e"
  shows "registered (fst (register_instance_to_target_groups elb i tgs)) = [A] \<and>
         filter (\<lambda>f. operation f = ''register'')
            (failed (fst (register_instance_to_target_groups elb i tgs))) =
           [\<lparr>f_arn = Some B, operation = ''register'', error = e\<rparr>] \<and>
         ((\<forall>g \<in> set (listed elb). \<forall>x. describe_target_health elb g \<noteq> Inl x) \<longrightarrow>
            failed (fst (register_instance_to_target_groups elb i tgs)) =
              [\<lparr>f_arn = Some B, operation = ''register'', error = e\<rparr>]) \<and>
         already_registered (fst (register_instance_to_target_groups elb i tgs)) = [] \<and>
         deregistered (fst (register_instance_to_target_groups elb i tgs)) = [] \<and>
         RegisterTargets A i \<in> set (snd (register_instance_to_target_groups elb i tgs)) \<and>
         RegisterTargets B i \<in> set (snd (register_instance_to_target_groups elb i tgs))"
proof -
  have ne: "tgs \<noteq> []" using desired by auto
  have AB: "A \<noteq> B" using regA regB by auto
  have m: "filter (is_member elb i) (listed elb) = []"
    using none by (simp add: current_def)
  have u: "unwanted elb i tgs = []" by (simp add: unwanted_def m)
  have mi: "missing elb i tgs = map arn tgs" by (simp add: missing_def m)
  have d: "filter (\<lambda>f. operation f = ''register'')
             (describe_failures ''describe_health'' elb (listed elb)) = []"
    by (auto simp: filter_empty_conv dest: operation_describe_failures)
  from two_distinct [OF desired(2) desired(1) AB]
  show ?thesis
  proof
    assume l: "map arn tgs = [A, B]"
    show ?thesis
      using regA regB AB d
      by (simp add: reconcile_diff [OF ne ok] m u mi l describe_failures_Nil)
  next
    assume l: "map arn tgs = [B, A]"
    show ?thesis
      using regA regB AB d
      by (simp add: reconcile_diff [OF ne ok] m u mi l describe_failures_Nil)
  qed
qed

theorem partial_failure_isolation_witness:
  "set (map arn [tg_A, tg_B]) = {''A'', ''B''} \<and> distinct (map arn [tg_A, tg_B]) \<and>
   snd (paginate elb_register_B_fails) = None \<and> current elb_register_B_fails ''i-1'' = {} \<and>
   register_targets elb_register_B_fails ''A'' ''i-1'' = None \<and>
   register_targets elb_register_B_fails ''B'' ''i-1'' = Some ''InvalidTarget'' \<and>
   registered (fst (register_instance_to_target_groups elb_register_B_fails ''i-1''
                      [tg_A, tg_B])) = [''A''] \<and>
   failed (fst (register_instance_to_target_groups elb_register_B_fails ''i-1'' [tg_A, tg_B])) =
     [\<lparr>f_arn = Some ''B'', operation = ''register'', error = ''InvalidTarget''\<rparr>]"
proof -
  have h: "set (map arn [tg_A, tg_B]) = {''A'', ''B''}" "distinct (map arn [tg_A, tg_B])"
    "snd (paginate elb_register_B_fails) = None" "current elb_register_B_fails ''i-1'' = {}"
    "register_targets elb_register_B_fails ''A'' ''i-1'' = None"
    "register_targets elb_register_B_fails ''B'' ''i-1'' = Some ''InvalidTarget''"
    by (simp_all add: tg_A_def tg_B_def elb_register_B_fails_def current_def listed_def
        is_member_def)
  have l: "\<forall>g \<in> set (listed elb_register_B_fails). \<forall>x.
             describe_target_health elb_register_B_fails g \<noteq> Inl x"
    by (simp add: elb_register_B_fails_def)
  show ?thesis
    using partial_failure_isolation [OF h] h l by simp
qed

section \<open>The desired target groups of a node\<close>

text \<open>
  C8, as the specification states it: for every response, \<open>get_target_groups_for_node\<close>
  returns exactly the entries whose \<^verbatim>\<open>arn\<close> and \<^verbatim>\<open>port\<close> are both present and not empty,
  and raises no error. The code does otherwise. An entry with the port 0 has both
  fields, and the condition of line 63, which is the truth value of \<^verbatim>\<open>tg.get('port')\<close>,
  drops it. And the call raises, returning nothing, when the value of \<^verbatim>\<open>eks\<close> is null
  (line 60), when the value of \<^verbatim>\<open>targetGroups\<close> is null (line 61), and when an element
  is not an object (line 63).
\<close>

theorem port_zero_dropped_and_null_raises:
  "present_and_nonempty \<lparr>entry_arn = Some ''A'', entry_port = Some 0\<rparr> \<and>
   get_target_groups_for_node
     (Inr (Body \<lparr>eks = Eks \<lparr>targetGroups =
        Elements [Entry \<lparr>entry_arn = Some ''A'', entry_port = Some 0\<rparr>]\<rparr>\<rparr>)) = Inr [] \<and>
   get_target_groups_for_node (Inr (Body \<lparr>eks = EksNotAnObject\<rparr>)) = Inl AttributeError \<and>
   get_target_groups_for_node (Inr (Body \<lparr>eks = Eks \<lparr>targetGroups = Unsized\<rparr>\<rparr>)) =
     Inl TypeError \<and>
   get_target_groups_for_node
     (Inr (Body \<lparr>eks = Eks \<lparr>targetGroups =
        Elements [Entry \<lparr>entry_arn = Some ''A'', entry_port = Some 80\<rparr>, NotAnObject]\<rparr>\<rparr>)) =
     Inl AttributeError"
  by (simp add: present_and_nonempty_def get_target_groups_for_node_def)

lemma select_target_groups_objects:
  "\<exists>out. select_target_groups (map Entry tgs) = Inr out \<and>
     map (\<lambda>g. (Some (arn g), Some (port g))) out =
       map (\<lambda>tg. (entry_arn tg, entry_port tg))
         (filter (\<lambda>tg. present_and_nonempty tg \<and> entry_port tg \<noteq> Some 0) tgs)"
  by (induction tgs) (auto simp: present_and_nonempty_def split: option.splits)

lemma select_target_groups_raises:
  "NotAnObject \<in> set els \<Longrightarrow> select_target_groups els = Inl AttributeError"
proof (induction els)
  case Nil
  then show ?case by simp
next
  case (Cons x els)
  then show ?case by (cases x) auto
qed

text \<open>A list without an element that is not an object is a list of objects.\<close>

lemma select_target_groups_returns:
  "NotAnObject \<notin> set els \<Longrightarrow> \<exists>tgs. els = map Entry tgs"
proof (induction els)
  case Nil
  then show ?case by simp
next
  case (Cons x els)
  then obtain tgs where "els = map Entry tgs" by auto
  moreover obtain tg where "x = Entry tg" using Cons.prems by (cases x) auto
  ultimately have "x # els = map Entry (tg # tgs)" by simp
  then show ?case by (rule exI)
qed

text \<open>
  C8, amended. When \<^verbatim>\<open>eks\<close> is an object and \<^verbatim>\<open>targetGroups\<close> a list of objects,
  \<open>get_target_groups_for_node\<close> raises no error and returns exactly the entries whose
  \<^verbatim>\<open>arn\<close> is present and not the empty string and whose \<^verbatim>\<open>port\<close> is present and not 0,
  each as its \<^verbatim>\<open>arn\<close> and \<^verbatim>\<open>port\<close>, in the order of the source; every other entry is
  dropped. A body that is false, or that lacks \<^verbatim>\<open>eks\<close> or \<^verbatim>\<open>targetGroups\<close>, gives the
  empty list. The call raises \<^verbatim>\<open>AttributeError\<close> when the body or the value of \<^verbatim>\<open>eks\<close> is
  not an object or when an element of \<^verbatim>\<open>targetGroups\<close> is not an object, and \<^verbatim>\<open>TypeError\<close>
  when the value of \<^verbatim>\<open>targetGroups\<close> has no length; the exception of \<^verbatim>\<open>fetch_data\<close>
  passes through.
\<close>

theorem get_target_groups_for_node_selects:
  "(\<exists>out. get_target_groups_for_node
             (Inr (Body \<lparr>eks = Eks \<lparr>targetGroups = Elements (map Entry tgs)\<rparr>\<rparr>)) = Inr out \<and>
          map (\<lambda>g. (Some (arn g), Some (port g))) out =
            map (\<lambda>tg. (entry_arn tg, entry_port tg))
              (filter (\<lambda>tg. present_and_nonempty tg \<and> entry_port tg \<noteq> Some 0) tgs)) \<and>
   (NotAnObject \<in> set els \<longrightarrow>
      get_target_groups_for_node (Inr (Body \<lparr>eks = Eks \<lparr>targetGroups = Elements els\<rparr>\<rparr>)) =
        Inl AttributeError) \<and>
   get_target_groups_for_node (Inr (Body \<lparr>eks = Eks \<lparr>targetGroups = Unsized\<rparr>\<rparr>)) =
     Inl TypeError \<and>
   get_target_groups_for_node (Inr (Body \<lparr>eks = EksNotAnObject\<rparr>)) = Inl AttributeError \<and>
   get_target_groups_for_node (Inr BodyNotAnObject) = Inl AttributeError \<and>
   get_target_groups_for_node (Inr (Body \<lparr>eks = Eks \<lparr>targetGroups = NoTargetGroups\<rparr>\<rparr>)) =
     Inr [] \<and>
   get_target_groups_for_node (Inr (Body \<lparr>eks = NoEks\<rparr>)) = Inr [] \<and>
   get_target_groups_for_node (Inr FalseBody) = Inr [] \<and>
   get_target_groups_for_node (Inl x) = Inl x"
  using select_target_groups_objects [of tgs] select_target_groups_raises [of els]
  by (simp add: get_target_groups_for_node_def)

theorem get_target_groups_for_node_selects_witness:
  "get_target_groups_for_node
     (Inr (Body \<lparr>eks = Eks \<lparr>targetGroups = Elements (map Entry
        [\<lparr>entry_arn = Some ''A'', entry_port = Some 80\<rparr>,
         \<lparr>entry_arn = Some ''B'', entry_port = None\<rparr>,
         \<lparr>entry_arn = Some [], entry_port = Some 443\<rparr>,
         \<lparr>entry_arn = None, entry_port = Some 443\<rparr>,
         \<lparr>entry_arn = Some ''C'', entry_port = Some 8080\<rparr>])\<rparr>\<rparr>)) =
     Inr [\<lparr>arn = ''A'', port = 80\<rparr>, \<lparr>arn = ''C'', port = 8080\<rparr>] \<and>
   NotAnObject \<in> set [Entry \<lparr>entry_arn = Some ''A'', entry_port = Some 80\<rparr>, NotAnObject] \<and>
   get_target_groups_for_node
     (Inr (Body \<lparr>eks = Eks \<lparr>targetGroups =
        Elements [Entry \<lparr>entry_arn = Some ''A'', entry_port = Some 80\<rparr>, NotAnObject]\<rparr>\<rparr>)) =
     Inl AttributeError"
  using get_target_groups_for_node_selects
    [of "[\<lparr>entry_arn = Some ''A'', entry_port = Some 80\<rparr>,
          \<lparr>entry_arn = Some ''B'', entry_port = None\<rparr>,
          \<lparr>entry_arn = Some [], entry_port = Some 443\<rparr>,
          \<lparr>entry_arn = None, entry_port = Some 443\<rparr>,
          \<lparr>entry_arn = Some ''C'', entry_port = Some 8080\<rparr>]"
        "[Entry \<lparr>entry_arn = Some ''A'', entry_port = Some 80\<rparr>, NotAnObject]"]
  by (simp add: get_target_groups_for_node_def)

section \<open>Nodes that are not eligible\<close>

lemma mutation_ids:
  "RegisterTargets a j \<in> set (snd (register_instance_to_target_groups elb i tgs)) \<Longrightarrow> j = i"
  "DeregisterTargets a j \<in> set (snd (register_instance_to_target_groups elb i tgs)) \<Longrightarrow> j = i"
proof -
  have c: "tgs = [] \<or> (tgs \<noteq> [] \<and> (\<exists>e. snd (paginate elb) = Some e)) \<or>
           (tgs \<noteq> [] \<and> snd (paginate elb) = None)"
    by auto
  show "RegisterTargets a j \<in> set (snd (register_instance_to_target_groups elb i tgs)) \<Longrightarrow> j = i"
    using c by (auto simp: reconcile_empty reconcile_listing_fails reconcile_diff)
  show "DeregisterTargets a j \<in> set (snd (register_instance_to_target_groups elb i tgs)) \<Longrightarrow> j = i"
    using c by (auto simp: reconcile_empty reconcile_listing_fails reconcile_diff)
qed

lemma mutation_ids_of_run:
  assumes "register_instance_to_target_groups elb i tgs = (r, cs)"
  shows "RegisterTargets a j \<in> set cs \<Longrightarrow> j = i"
    and "DeregisterTargets a j \<in> set cs \<Longrightarrow> j = i"
  using mutation_ids [of a j elb i tgs] assms by simp_all

lemma process_node_ineligible:
  "\<not> eligible n \<Longrightarrow> Call c \<notin> set (fst (process_node e n))"
  by (auto simp: process_node_def eligible_def split: option.splits)

lemma process_node_skips:
  "\<not> eligible n \<Longrightarrow> state_phase n = Some p \<Longrightarrow> name n = Some nm \<Longrightarrow>
   process_node e n = ([Log (SkippingNode nm)], None)"
  by (auto simp: process_node_def eligible_def)

lemma process_node_mutation:
  assumes "Call (RegisterTargets a i) \<in> set (fst (process_node e n)) \<or>
           Call (DeregisterTargets a i) \<in> set (fst (process_node e n))"
  shows "eligible n \<and> instanceId n = Some i"
proof -
  have el: "eligible n"
    using assms process_node_ineligible by blast
  have "instanceId n = Some i"
    using assms
    by (auto simp: process_node_def split: option.splits if_splits sum.splits prod.splits
        dest: mutation_ids_of_run)
  with el show ?thesis by simp
qed

lemma process_nodes_mutation:
  assumes "Call (RegisterTargets a i) \<in> set (fst (process_nodes e ns)) \<or>
           Call (DeregisterTargets a i) \<in> set (fst (process_nodes e ns))"
  shows "\<exists>m \<in> set ns. eligible m \<and> instanceId m = Some i"
  using assms
proof (induction ns)
  case Nil
  then show ?case by simp
next
  case (Cons n ns)
  obtain evs x where pn: "process_node e n = (evs, x)"
    by (cases "process_node e n")
  obtain evs' x' where pr: "process_nodes e ns = (evs', x')"
    by (cases "process_nodes e ns")
  from Cons.prems have
    "(Call (RegisterTargets a i) \<in> set evs \<or> Call (DeregisterTargets a i) \<in> set evs) \<or>
     (Call (RegisterTargets a i) \<in> set evs' \<or> Call (DeregisterTargets a i) \<in> set evs')"
    by (auto simp: pn pr split: option.splits)
  then show ?case
  proof
    assume "Call (RegisterTargets a i) \<in> set evs \<or> Call (DeregisterTargets a i) \<in> set evs"
    then have "eligible n \<and> instanceId n = Some i"
      using process_node_mutation [of a i e n] by (simp add: pn)
    then show ?thesis by simp
  next
    assume "Call (RegisterTargets a i) \<in> set evs' \<or> Call (DeregisterTargets a i) \<in> set evs'"
    then have "\<exists>m \<in> set ns. eligible m \<and> instanceId m = Some i"
      using Cons.IH by (simp add: pr)
    then show ?thesis by auto
  qed
qed

lemma main_mutation:
  assumes "Call (RegisterTargets a i) \<in> set (fst (main e)) \<or>
           Call (DeregisterTargets a i) \<in> set (fst (main e))"
  shows "\<exists>ns. get_cluster_nodes (nodes_fetch e) = Inr ns \<and>
           (\<exists>m \<in> set ns. eligible m \<and> instanceId m = Some i)"
proof (cases "get_cluster_nodes (nodes_fetch e)")
  case (Inl err)
  with assms show ?thesis by (auto simp: main_def split: if_splits)
next
  case (Inr ns)
  obtain evs x where pr: "process_nodes e ns = (evs, x)"
    by (cases "process_nodes e ns")
  from assms have
    "Call (RegisterTargets a i) \<in> set evs \<or> Call (DeregisterTargets a i) \<in> set evs"
    by (auto simp: main_def Inr pr split: if_splits)
  then show ?thesis
    using process_nodes_mutation [of a i e ns] by (simp add: pr Inr)
qed

text \<open>The events of the loop are those of its bodies, for the nodes up to the one that raises.\<close>

lemma process_nodes_events:
  "\<exists>k \<le> length ns.
     fst (process_nodes e ns) = concat (map (\<lambda>n. fst (process_node e n)) (take k ns))"
proof (induction ns)
  case Nil
  then show ?case by simp
next
  case (Cons n ns)
  obtain evs x where pn: "process_node e n = (evs, x)"
    by (cases "process_node e n")
  show ?case
  proof (cases x)
    case None
    from Cons.IH obtain k where k: "k \<le> length ns"
      "fst (process_nodes e ns) = concat (map (\<lambda>n. fst (process_node e n)) (take k ns))"
      by blast
    obtain evs' x' where pr: "process_nodes e ns = (evs', x')"
      by (cases "process_nodes e ns")
    have "fst (process_nodes e (n # ns)) =
            concat (map (\<lambda>n. fst (process_node e n)) (take (Suc k) (n # ns)))"
      using k(2) by (simp add: pn None pr)
    with k(1) show ?thesis
      by (intro exI [of _ "Suc k"]) simp
  next
    case (Some err)
    have "fst (process_nodes e (n # ns)) =
            concat (map (\<lambda>n. fst (process_node e n)) (take (Suc 0) (n # ns)))"
      by (simp add: pn Some)
    then show ?thesis
      by (intro exI [of _ "Suc 0"]) simp
  qed
qed

lemma main_two_nodes:
  "main env_two_nodes =
     ([Log FetchingClusterNodes, Log ProcessingNodes, Log (SkippingNode ''worker-2''),
       Log (ProcessingNode ''worker-1'' ''i-1''),
       Call (DescribeTargetHealth ''A''), Call (DescribeTargetHealth ''B''),
       Call (DeregisterTargets ''A'' ''i-1''), Call (RegisterTargets ''B'' ''i-1''),
       Log (OperationResults ''worker-1''
              \<lparr>registered = [''B''], already_registered = [''A''], deregistered = [''A''],
               failed = []\<rparr>)], None)"
  by (simp add: main_def env_two_nodes_def is_set_def get_cluster_nodes_def process_node_def
      node_ready_def node_unmanaged_def get_target_groups_for_node_def elb_member_of_A_def
      register_instance_to_target_groups_def empty_results_def)

text \<open>
  C9: in one call of \<open>main\<close>, for a node of the fetched inventory that is not eligible,
  the body of the loop makes no client call at all; when the node has a phase and a name,
  all it does is log that the node is skipped, and the loop goes on. In the whole call,
  no register or deregister call carries the instance id of such a node, unless an
  eligible node of the inventory has the same instance id.
\<close>

theorem ineligible_node_untouched:
  assumes inv: "get_cluster_nodes (nodes_fetch e) = Inr ns"
    and n: "n \<in> set ns" and inel: "\<not> eligible n"
  shows "(\<forall>c. Call c \<notin> set (fst (process_node e n))) \<and>
         (\<forall>p nm. state_phase n = Some p \<and> name n = Some nm \<longrightarrow>
            process_node e n = ([Log (SkippingNode nm)], None)) \<and>
         (\<forall>i. instanceId n = Some i \<and>
              (\<forall>m \<in> set ns. eligible m \<longrightarrow> instanceId m \<noteq> Some i) \<longrightarrow>
            (\<forall>a. Call (RegisterTargets a i) \<notin> set (fst (main e)) \<and>
                 Call (DeregisterTargets a i) \<notin> set (fst (main e))))"
proof (intro conjI allI impI)
  fix c show "Call c \<notin> set (fst (process_node e n))"
    using inel by (rule process_node_ineligible)
next
  fix p nm assume "state_phase n = Some p \<and> name n = Some nm"
  then show "process_node e n = ([Log (SkippingNode nm)], None)"
    using inel process_node_skips by blast
next
  fix i a
  assume h: "instanceId n = Some i \<and> (\<forall>m \<in> set ns. eligible m \<longrightarrow> instanceId m \<noteq> Some i)"
  show "Call (RegisterTargets a i) \<notin> set (fst (main e))"
    using main_mutation [of a i e] h inv by auto
  show "Call (DeregisterTargets a i) \<notin> set (fst (main e))"
    using main_mutation [of a i e] h inv by auto
qed

theorem ineligible_node_untouched_witness:
  "get_cluster_nodes (nodes_fetch env_two_nodes) = Inr [node_unmanaged, node_ready] \<and>
   node_unmanaged \<in> set [node_unmanaged, node_ready] \<and> \<not> eligible node_unmanaged \<and>
   eligible node_ready \<and>
   process_node env_two_nodes node_unmanaged = ([Log (SkippingNode ''worker-2'')], None) \<and>
   (\<forall>a. Call (RegisterTargets a ''i-2'') \<notin> set (fst (main env_two_nodes)) \<and>
        Call (DeregisterTargets a ''i-2'') \<notin> set (fst (main env_two_nodes)))"
proof -
  have h: "get_cluster_nodes (nodes_fetch env_two_nodes) = Inr [node_unmanaged, node_ready]"
    "node_unmanaged \<in> set [node_unmanaged, node_ready]" "\<not> eligible node_unmanaged"
    by (simp_all add: env_two_nodes_def get_cluster_nodes_def eligible_def node_unmanaged_def)
  have f: "eligible node_ready" "instanceId node_ready = Some ''i-1''"
    "instanceId node_unmanaged = Some ''i-2''" "state_phase node_unmanaged = Some ''ready''"
    "name node_unmanaged = Some ''worker-2''"
    by (simp_all add: eligible_def node_ready_def node_unmanaged_def)
  show ?thesis
    using ineligible_node_untouched [OF h] h f by simp
qed

end
